theory Spec2Isabelle
  imports Main "HOL-Library.Word"
begin

unbundle bit_operations_syntax

section \<open>The demonstration program \<open>target_program.cpp\<close>\<close>

text \<open>
  The program asks the operating system for memory at a fixed virtual address, stores 42
  through the returned pointer, prints pointer and value, waits for a key, prints both
  again and waits once more. Everything it does goes through the operating system and the
  console, so the embedding is a state-passing one: a \<open>process\<close> record holds the
  address space, the descriptor table, the unread console input and the trace of what the
  program did; an \<open>env\<close> record holds the answers of the outside world.
\<close>

subsection \<open>Machine types\<close>

text \<open>
  \<open>size_t\<close>, pointers and \<open>uint64_t\<close> are 64-bit words (the literal
  \<open>0x00007FF49E872000\<close> needs 47 bits); a Windows \<open>DWORD\<close> is a 32-bit word; a C
  \<open>int\<close> that carries a descriptor or a flag set is an \<open>int\<close>.
\<close>

type_synonym addr = "64 word"
type_synonym byte = "8 word"
type_synonym memory = "addr \<rightharpoonup> byte"

subsection \<open>Constants of the platform headers\<close>

text \<open>
  The source includes \<open>Windows.h\<close>, \<open>sys/mman.h\<close> and \<open>fcntl.h\<close> and uses these
  macros of theirs. They belong to the platform, not to the repository; the values are
  those of the Windows SDK and of Linux. No theorem below depends on a value except that
  \<open>MAP_FAILED\<close>, which is \<open>(void *) -1\<close>, differs from the null pointer.
\<close>

definition NULL :: addr where
  "NULL = 0"

definition MAP_FAILED :: addr where
  "MAP_FAILED = - 1"

definition MEM_COMMIT :: "32 word" where
  "MEM_COMMIT = 0x1000"

definition PAGE_READWRITE :: "32 word" where
  "PAGE_READWRITE = 0x04"

definition PROT_READ :: int where
  "PROT_READ = 1"

definition PROT_WRITE :: int where
  "PROT_WRITE = 2"

definition O_RDWR :: int where
  "O_RDWR = 2"

subsection \<open>The outside world\<close>

text \<open>
  The two allocation primitives, with the arguments in the order of their C prototypes:
  \<open>VirtualAlloc(lpAddress, dwSize, flAllocationType, flProtect)\<close> and
  \<open>mmap(addr, length, prot, flags, fd, offset)\<close>.
\<close>

datatype vm_request =
    ReqVirtualAlloc addr "64 word" "32 word" "32 word"
  | ReqMmap addr "64 word" int int int int

datatype os_reply = Granted addr | Denied

text \<open>
  The virtual-memory subsystem is a black box that grants a request at an address of its
  choice or declines it. \<open>open_ok\<close> says whether opening a path succeeds, and
  \<open>edit n\<close> is what another tool does to the memory while the program waits in its
  \<open>n\<close>-th \<open>std::cin.get()\<close> (the identity when nobody touches it).
\<close>

record env =
  vm :: "vm_request \<Rightarrow> os_reply"
  open_ok :: "string \<Rightarrow> int \<Rightarrow> bool"
  edit :: "nat \<Rightarrow> memory \<Rightarrow> memory"

datatype out_item = OutPtr addr | OutU64 "64 word" | OutStr string | OutChar char

datatype event =
    EvOpen string int int
  | EvRequest vm_request addr
  | EvStore addr "64 word"
  | EvLoad addr
  | EvPrint out_item
  | EvGet

record process =
  mem :: memory
  fds :: "(int \<times> string \<times> int) list"
  cin :: string
  gets :: nat
  trace :: "event list"

datatype outcome = Exited int | Segfault addr

datatype platform = Win32 | Posix

text \<open>
  A fresh process: nothing of the address space is known to be accessible, the three
  standard descriptors are open, and \<open>inp\<close> is what the console will deliver.
\<close>

definition start :: "string \<Rightarrow> process" where
  "start inp =
     \<lparr>mem = Map.empty,
      fds = [(0, ''stdin'', 0), (1, ''stdout'', 1), (2, ''stderr'', 1)],
      cin = inp, gets = 0, trace = []\<rparr>"

subsection \<open>Memory\<close>

text \<open>
  The \<open>n\<close> bytes starting at \<open>p\<close> are the addresses \<open>a\<close> with \<open>a - p < n\<close>,
  computed in 64-bit arithmetic. A granted request makes at least these bytes accessible;
  bytes that were not accessible before read as zero.
\<close>

definition in_range :: "addr \<Rightarrow> nat \<Rightarrow> addr \<Rightarrow> bool" where
  "in_range p n a = (unat (a - p) < n)"

definition commit :: "memory \<Rightarrow> addr \<Rightarrow> 64 word \<Rightarrow> memory" where
  "commit m h n =
     (\<lambda>a. if in_range h (unat n) a
          then Some (case m a of Some b \<Rightarrow> b | None \<Rightarrow> 0)
          else m a)"

definition accessible :: "memory \<Rightarrow> addr \<Rightarrow> nat \<Rightarrow> bool" where
  "accessible m p n = list_all (\<lambda>i. m (p + of_nat i) \<noteq> None) [0..<n]"

text \<open>A \<open>uint64_t\<close> occupies eight bytes, least significant first.\<close>

definition byte_of :: "64 word \<Rightarrow> nat \<Rightarrow> byte" where
  "byte_of v i = ucast (drop_bit (8 * i) v)"

fun word_of_bytes :: "byte list \<Rightarrow> 64 word" where
  "word_of_bytes [] = 0"
| "word_of_bytes (b # bs) = ucast b OR push_bit 8 (word_of_bytes bs)"

definition store64 :: "memory \<Rightarrow> addr \<Rightarrow> 64 word \<Rightarrow> memory option" where
  "store64 m p v =
     (if accessible m p 8
      then Some (\<lambda>a. if in_range p 8 a then Some (byte_of v (unat (a - p))) else m a)
      else None)"

definition load64 :: "memory \<Rightarrow> addr \<Rightarrow> 64 word option" where
  "load64 m p =
     map_option word_of_bytes (those (map (\<lambda>i. m (p + of_nat i)) [0..<8]))"

subsection \<open>Operating-system primitives\<close>

text \<open>
  \<open>VirtualAlloc\<close> returns the base address of the region, or \<open>NULL\<close> when the
  request is declined; \<open>mmap\<close> returns the address of the mapping, or \<open>MAP_FAILED\<close>.
  \<open>open\<close> returns the lowest descriptor not in use, or \<open>-1\<close>.
\<close>

definition VirtualAlloc ::
    "env \<Rightarrow> addr \<Rightarrow> 64 word \<Rightarrow> 32 word \<Rightarrow> 32 word \<Rightarrow> process \<Rightarrow> addr \<times> process" where
  "VirtualAlloc e lpAddress dwSize flAllocationType flProtect s =
     (let rq = ReqVirtualAlloc lpAddress dwSize flAllocationType flProtect in
      case vm e rq of
        Granted h \<Rightarrow>
          (h, s\<lparr>mem := commit (mem s) h dwSize, trace := trace s @ [EvRequest rq h]\<rparr>)
      | Denied \<Rightarrow> (NULL, s\<lparr>trace := trace s @ [EvRequest rq NULL]\<rparr>))"

definition sys_mmap ::
    "env \<Rightarrow> addr \<Rightarrow> 64 word \<Rightarrow> int \<Rightarrow> int \<Rightarrow> int \<Rightarrow> int \<Rightarrow> process \<Rightarrow> addr \<times> process" where
  "sys_mmap e address len prot flags fd offset s =
     (let rq = ReqMmap address len prot flags fd offset in
      case vm e rq of
        Granted h \<Rightarrow>
          (h, s\<lparr>mem := commit (mem s) h len, trace := trace s @ [EvRequest rq h]\<rparr>)
      | Denied \<Rightarrow> (MAP_FAILED, s\<lparr>trace := trace s @ [EvRequest rq MAP_FAILED]\<rparr>))"

definition lowest_free :: "(int \<times> string \<times> int) list \<Rightarrow> int" where
  "lowest_free tab =
     (case find (\<lambda>n. n \<notin> set (map fst tab)) (map int [0..<Suc (length tab)]) of
        Some n \<Rightarrow> n
      | None \<Rightarrow> int (length tab))"

definition sys_open :: "env \<Rightarrow> string \<Rightarrow> int \<Rightarrow> process \<Rightarrow> int \<times> process" where
  "sys_open e path oflag s =
     (if open_ok e path oflag
      then (let fd = lowest_free (fds s) in
            (fd, s\<lparr>fds := fds s @ [(fd, path, oflag)],
                    trace := trace s @ [EvOpen path oflag fd]\<rparr>))
      else (- 1, s\<lparr>trace := trace s @ [EvOpen path oflag (- 1)]\<rparr>))"

subsection \<open>Pointer accesses and the console\<close>

text \<open>
  \<open>*p = v\<close> and \<open>*p\<close> for a \<open>uint64_t *p\<close>. An access to bytes that are not
  accessible is undefined behaviour in C++; the model takes the behaviour of a platform
  that faults on it. An access is recorded when it is attempted; \<open>Inl\<close> is the process
  at the moment the access faults.
\<close>

definition deref_write :: "addr \<Rightarrow> 64 word \<Rightarrow> process \<Rightarrow> process + process" where
  "deref_write p v s =
     (let s' = s\<lparr>trace := trace s @ [EvStore p v]\<rparr> in
      case store64 (mem s) p v of
        None \<Rightarrow> Inl s'
      | Some m \<Rightarrow> Inr (s'\<lparr>mem := m\<rparr>))"

definition deref_read :: "addr \<Rightarrow> process \<Rightarrow> process + 64 word \<times> process" where
  "deref_read p s =
     (let s' = s\<lparr>trace := trace s @ [EvLoad p]\<rparr> in
      case load64 (mem s) p of
        None \<Rightarrow> Inl s'
      | Some v \<Rightarrow> Inr (v, s'))"

definition cout :: "out_item \<Rightarrow> process \<Rightarrow> process" where
  "cout x s = s\<lparr>trace := trace s @ [EvPrint x]\<rparr>"

text \<open>
  \<open>std::cin.get()\<close> takes one character of the console input (none at end of input);
  the program discards it. While the program waits, the outside world may edit the memory.
\<close>

definition cin_get :: "env \<Rightarrow> process \<Rightarrow> process" where
  "cin_get e s =
     s\<lparr>mem := edit e (gets s) (mem s), cin := drop 1 (cin s),
       gets := Suc (gets s), trace := trace s @ [EvGet]\<rparr>"

subsection \<open>\<open>allocate_mem\<close>\<close>

text \<open>
  The template parameter \<open>T\<close> enters only through \<open>sizeof(T)\<close>, the first argument
  after the environment. The Windows variant is lines 24 to 29 of the source, the POSIX
  variant lines 33 to 37; \<open>#ifdef _WIN32\<close> chooses between them.
\<close>

definition allocate_mem_win32 :: "env \<Rightarrow> 64 word \<Rightarrow> addr \<Rightarrow> process \<Rightarrow> addr \<times> process" where
  "allocate_mem_win32 e sizeof_T address s =
     (let (pointer, s') = VirtualAlloc e address sizeof_T MEM_COMMIT PAGE_READWRITE s
      in (pointer, s'))"

definition allocate_mem_posix :: "env \<Rightarrow> 64 word \<Rightarrow> addr \<Rightarrow> process \<Rightarrow> addr \<times> process" where
  "allocate_mem_posix e sizeof_T address s =
     (let (fd, s') = sys_open e ''/dev/null'' O_RDWR s
      in sys_mmap e address sizeof_T (PROT_WRITE OR PROT_READ) 0 fd 0 s')"

definition allocate_mem ::
    "platform \<Rightarrow> env \<Rightarrow> 64 word \<Rightarrow> addr \<Rightarrow> process \<Rightarrow> addr \<times> process" where
  "allocate_mem pf e sizeof_T address s =
     (case pf of
        Win32 \<Rightarrow> allocate_mem_win32 e sizeof_T address s
      | Posix \<Rightarrow> allocate_mem_posix e sizeof_T address s)"

subsection \<open>\<open>main\<close>\<close>

text \<open>
  \<open>print_cell\<close> is the output statement that stands at line 11 and again at line 16:
  it sends the pointer, the separator, the value \<open>*number\<close> and a newline to
  \<open>std::cout\<close>. The operands of a \<open><<\<close> chain are evaluated from left to right,
  so \<open>*number\<close> is read after the pointer and the separator have been sent to the
  stream. \<open>main\<close> is lines 6 to 20 of the source, statement by statement; a fault ends
  the run, and falling off the end of \<open>main\<close> is \<open>return 0\<close>.
\<close>

definition print_cell :: "addr \<Rightarrow> process \<Rightarrow> process + process" where
  "print_cell number s =
     (let s1 = cout (OutPtr number) s;
          s2 = cout (OutStr '' - '') s1
      in case deref_read number s2 of
           Inl f \<Rightarrow> Inl f
         | Inr (v, s3) \<Rightarrow> Inr (cout (OutChar (CHR 0x0A)) (cout (OutU64 v) s3)))"

definition main :: "platform \<Rightarrow> env \<Rightarrow> int \<Rightarrow> string list \<Rightarrow> process \<Rightarrow> outcome \<times> process" where
  "main pf e argc argv s0 =
     (let addr = 0x00007FF49E872000;
          (number, s1) = allocate_mem pf e 8 addr s0
      in case deref_write number 42 s1 of
           Inl f \<Rightarrow> (Segfault number, f)
         | Inr s2 \<Rightarrow>
      (case print_cell number s2 of
           Inl f \<Rightarrow> (Segfault number, f)
         | Inr s3 \<Rightarrow>
      (let s4 = cout (OutStr ''Press ENTER to update value\<newline>'') s3;
           s5 = cin_get e s4
       in case print_cell number s5 of
            Inl f \<Rightarrow> (Segfault number, f)
          | Inr s6 \<Rightarrow>
      (let s7 = cout (OutStr ''Press ENTER to exit\<newline>'') s6;
           s8 = cin_get e s7
       in (Exited 0, s8)))))"

subsection \<open>Observations on a run\<close>

text \<open>
  What a trace shows: the allocation requests issued, the items sent to \<open>std::cout\<close>,
  and how often the program waited in \<open>std::cin.get()\<close>.
\<close>

fun vm_requests :: "event list \<Rightarrow> vm_request list" where
  "vm_requests [] = []"
| "vm_requests (EvRequest rq p # evs) = rq # vm_requests evs"
| "vm_requests (ev # evs) = vm_requests evs"

fun printed :: "event list \<Rightarrow> out_item list" where
  "printed [] = []"
| "printed (EvPrint x # evs) = x # printed evs"
| "printed (ev # evs) = printed evs"

fun suspensions :: "event list \<Rightarrow> nat" where
  "suspensions [] = 0"
| "suspensions (EvGet # evs) = Suc (suspensions evs)"
| "suspensions (ev # evs) = suspensions evs"

fun req_addr :: "vm_request \<Rightarrow> addr" where
  "req_addr (ReqVirtualAlloc a n ty prot) = a"
| "req_addr (ReqMmap a n prot flags fd off) = a"

fun req_size :: "vm_request \<Rightarrow> 64 word" where
  "req_size (ReqVirtualAlloc a n ty prot) = n"
| "req_size (ReqMmap a n prot flags fd off) = n"

text \<open>
  Read and write access: \<open>PAGE_READWRITE\<close> on Windows, both \<open>PROT_READ\<close> and
  \<open>PROT_WRITE\<close> in the protection of a mapping.
\<close>

fun req_readwrite :: "vm_request \<Rightarrow> bool" where
  "req_readwrite (ReqVirtualAlloc a n ty prot) = (prot = PAGE_READWRITE)"
| "req_readwrite (ReqMmap a n prot flags fd off) =
     (prot AND PROT_READ = PROT_READ \<and> prot AND PROT_WRITE = PROT_WRITE)"

text \<open>The \<open>flags\<close> argument of a mapping request (\<open>VirtualAlloc\<close> has none).\<close>

fun req_flags :: "vm_request \<Rightarrow> int option" where
  "req_flags (ReqVirtualAlloc a n ty prot) = None"
| "req_flags (ReqMmap a n prot flags fd off) = Some flags"

text \<open>The value each variant hands back when the request is declined.\<close>

definition failure_value :: "platform \<Rightarrow> addr" where
  "failure_value pf = (case pf of Win32 \<Rightarrow> NULL | Posix \<Rightarrow> MAP_FAILED)"

text \<open>
  Pages of \<open>P\<close> bytes: the page of the first and of the last byte of the \<open>n\<close> bytes
  at \<open>a\<close>. The operating system works on whole pages, so a request touches every page
  between the two.
\<close>

definition first_page :: "nat \<Rightarrow> addr \<Rightarrow> nat" where
  "first_page P a = unat a div P"

definition last_page :: "nat \<Rightarrow> addr \<Rightarrow> 64 word \<Rightarrow> nat" where
  "last_page P a n = (unat a + unat n - 1) div P"

definition within_one_page :: "nat \<Rightarrow> addr \<Rightarrow> 64 word \<Rightarrow> bool" where
  "within_one_page P a n = (first_page P a = last_page P a n)"

subsection \<open>Three environments for concrete runs\<close>

text \<open>
  \<open>grant_at h\<close> grants every request at \<open>h\<close>, \<open>deny\<close> declines every request; in
  both the null device can be opened and nobody edits the memory during a pause.
  \<open>grant_then_unmap h\<close> grants every request at \<open>h\<close>, and during a pause another
  tool releases the eight bytes at \<open>h\<close> (as \<open>VirtualFreeEx\<close> does from outside the
  process).
\<close>

definition grant_at :: "addr \<Rightarrow> env" where
  "grant_at h = \<lparr>vm = (\<lambda>rq. Granted h), open_ok = (\<lambda>path oflag. True), edit = (\<lambda>n m. m)\<rparr>"

definition deny :: env where
  "deny = \<lparr>vm = (\<lambda>rq. Denied), open_ok = (\<lambda>path oflag. True), edit = (\<lambda>n m. m)\<rparr>"


section \<open>Properties\<close>

subsection \<open>Bytes and memory\<close>

lemma byte_step:
  "(ucast (ucast w :: byte) :: 64 word) OR push_bit 8 (take_bit m (drop_bit 8 w)) =
   take_bit (8 + m) w"
  by (rule bit_word_eqI) (auto simp add: bit_simps)

lemma word_of_bytes_slice:
  "word_of_bytes (map (\<lambda>i. byte_of v (k + i)) [0..<n]) =
   take_bit (8 * n) (drop_bit (8 * k) v)"
proof (induction n arbitrary: k)
  case 0
  show ?case by simp
next
  case (Suc n)
  have tail: "word_of_bytes (map (\<lambda>i. byte_of v (Suc k + i)) [0..<n]) =
        take_bit (8 * n) (drop_bit (8 * Suc k) v)"
    by (rule Suc.IH)
  have shift: "drop_bit (8 * Suc k) v = drop_bit 8 (drop_bit (8 * k) v)"
    by (simp add: drop_bit_drop_bit add.commute)
  have "word_of_bytes (map (\<lambda>i. byte_of v (k + i)) [0..<Suc n]) =
        ucast (byte_of v k) OR
        push_bit 8 (word_of_bytes (map (\<lambda>i. byte_of v (Suc k + i)) [0..<n]))"
    by (simp add: map_upt_Suc del: upt_Suc)
  also have "\<dots> = ucast (ucast (drop_bit (8 * k) v) :: byte) OR
        push_bit 8 (take_bit (8 * n) (drop_bit 8 (drop_bit (8 * k) v)))"
    unfolding tail shift by (simp only: byte_of_def)
  also have "\<dots> = take_bit (8 * Suc n) (drop_bit (8 * k) v)"
    by (simp only: byte_step mult_Suc_right)
  finally show ?case .
qed

lemma word_of_bytes_byte_of: "word_of_bytes (map (byte_of v) [0..<8]) = v"
  using word_of_bytes_slice [of v 0 8] by (simp add: take_bit_word_eq_self del: upt_Suc)

lemma in_range_self: "i < 8 \<Longrightarrow> in_range p 8 (p + of_nat i)"
  by (simp add: in_range_def unat_of_nat)

lemma accessible_iff: "accessible m p n \<longleftrightarrow> (\<forall>i<n. m (p + of_nat i) \<noteq> None)"
  by (auto simp add: accessible_def list_all_iff)

lemma accessible_commit: "accessible (commit m h 8) h 8"
  by (simp add: accessible_iff commit_def in_range_self)

lemma accessible_empty: "\<not> accessible Map.empty p 8"
  unfolding accessible_iff by (simp add: exI [of _ 0])

lemma those_map_Some: "those (map (\<lambda>i. Some (f i)) xs) = Some (map f xs)"
  by (induction xs) simp_all


lemma load64_store64:
  assumes "store64 m p v = Some m'"
  shows "load64 m' p = Some v"
proof -
  from assms have m': "m' = (\<lambda>a. if in_range p 8 a then Some (byte_of v (unat (a - p))) else m a)"
    by (simp add: store64_def split: if_splits)
  have "map (\<lambda>i. m' (p + of_nat i)) [0..<8] = map (\<lambda>i. Some (byte_of v i)) [0..<8]"
    unfolding m' by (rule map_cong) (simp_all add: in_range_self unat_of_nat)
  then show ?thesis
    by (simp only: load64_def those_map_Some word_of_bytes_byte_of option.map)
qed


lemma store64_None_iff: "store64 m p v = None \<longleftrightarrow> \<not> accessible m p 8"
  by (simp add: store64_def)

subsection \<open>Traces, accesses and the two variants of \<open>allocate_mem\<close>\<close>

lemma vm_requests_append: "vm_requests (xs @ ys) = vm_requests xs @ vm_requests ys"
  by (induction xs rule: vm_requests.induct) simp_all

lemma printed_append: "printed (xs @ ys) = printed xs @ printed ys"
  by (induction xs rule: printed.induct) simp_all

lemma suspensions_append: "suspensions (xs @ ys) = suspensions xs + suspensions ys"
  by (induction xs rule: suspensions.induct) simp_all

lemma request_in_trace: "EvRequest rq p \<in> set evs \<Longrightarrow> rq \<in> set (vm_requests evs)"
  by (induction evs rule: vm_requests.induct) auto

lemma deref_write_Inl:
  "deref_write p v s = Inl f \<Longrightarrow>
     f = s\<lparr>trace := trace s @ [EvStore p v]\<rparr> \<and> \<not> accessible (mem s) p 8"
  by (auto simp add: deref_write_def Let_def store64_None_iff split: option.splits)

lemma deref_write_Inr:
  "deref_write p v s = Inr s' \<Longrightarrow>
     \<exists>m. store64 (mem s) p v = Some m \<and>
         s' = s\<lparr>trace := trace s @ [EvStore p v], mem := m\<rparr>"
  by (auto simp add: deref_write_def Let_def split: option.splits)

lemma print_cell_Inr:
  "print_cell p s = Inr s' \<Longrightarrow>
     \<exists>v. load64 (mem s) p = Some v \<and>
         s' = s\<lparr>trace := trace s @ [EvPrint (OutPtr p), EvPrint (OutStr '' - ''), EvLoad p,
                  EvPrint (OutU64 v), EvPrint (OutChar (CHR 0x0A))]\<rparr>"
  by (auto simp add: print_cell_def deref_read_def cout_def Let_def split: option.splits)

lemma print_cell_Inl:
  "print_cell p s = Inl f \<Longrightarrow>
     load64 (mem s) p = None \<and>
     f = s\<lparr>trace := trace s @ [EvPrint (OutPtr p), EvPrint (OutStr '' - ''), EvLoad p]\<rparr>"
  by (auto simp add: print_cell_def deref_read_def cout_def Let_def split: option.splits)

text \<open>What a call of \<open>allocate_mem\<close> does, on either platform.\<close>

lemma allocate_mem_win32_eq:
  "allocate_mem Win32 e n a s =
     (case vm e (ReqVirtualAlloc a n MEM_COMMIT PAGE_READWRITE) of
        Granted h \<Rightarrow> (h, s\<lparr>mem := commit (mem s) h n,
            trace := trace s @ [EvRequest (ReqVirtualAlloc a n MEM_COMMIT PAGE_READWRITE) h]\<rparr>)
      | Denied \<Rightarrow> (NULL, s\<lparr>trace := trace s @
            [EvRequest (ReqVirtualAlloc a n MEM_COMMIT PAGE_READWRITE) NULL]\<rparr>))"
  by (simp add: allocate_mem_def allocate_mem_win32_def VirtualAlloc_def Let_def
      split: os_reply.splits)

lemma allocate_mem_posix_eq:
  "allocate_mem Posix e n a s =
     (let fd = (if open_ok e ''/dev/null'' O_RDWR then lowest_free (fds s) else - 1);
          s' = s\<lparr>fds := (if open_ok e ''/dev/null'' O_RDWR
                          then fds s @ [(fd, ''/dev/null'', O_RDWR)] else fds s)\<rparr>;
          rq = ReqMmap a n (PROT_WRITE OR PROT_READ) 0 fd 0
      in case vm e rq of
        Granted h \<Rightarrow> (h, s'\<lparr>mem := commit (mem s) h n,
            trace := trace s @ [EvOpen ''/dev/null'' O_RDWR fd, EvRequest rq h]\<rparr>)
      | Denied \<Rightarrow> (MAP_FAILED, s'\<lparr>trace := trace s @
            [EvOpen ''/dev/null'' O_RDWR fd, EvRequest rq MAP_FAILED]\<rparr>))"
  by (simp add: allocate_mem_def allocate_mem_posix_def sys_open_def sys_mmap_def Let_def
      split: os_reply.splits)

lemma allocate_mem_spec:
  "\<exists>pre rq. trace (snd (allocate_mem pf e n a s)) =
        trace s @ pre @ [EvRequest rq (fst (allocate_mem pf e n a s))] \<and>
      vm_requests pre = [] \<and> printed pre = [] \<and> suspensions pre = 0 \<and>
      req_addr rq = a \<and> req_size rq = n \<and> req_readwrite rq \<and>
      gets (snd (allocate_mem pf e n a s)) = gets s \<and>
      (case vm e rq of
         Granted h \<Rightarrow> fst (allocate_mem pf e n a s) = h \<and>
            mem (snd (allocate_mem pf e n a s)) = commit (mem s) h n
       | Denied \<Rightarrow> fst (allocate_mem pf e n a s) = failure_value pf \<and>
            mem (snd (allocate_mem pf e n a s)) = mem s)"
proof (cases pf)
  case Win32
  show ?thesis
    unfolding Win32 allocate_mem_win32_eq
    by (rule exI [of _ "[]"], rule exI [of _ "ReqVirtualAlloc a n MEM_COMMIT PAGE_READWRITE"])
       (simp add: failure_value_def split: os_reply.splits)
next
  case Posix
  show ?thesis
    unfolding Posix allocate_mem_posix_eq Let_def
    by (rule exI [of _ "[EvOpen ''/dev/null'' O_RDWR
            (if open_ok e ''/dev/null'' O_RDWR then lowest_free (fds s) else - 1)]"],
        rule exI [of _ "ReqMmap a n (PROT_WRITE OR PROT_READ) 0
            (if open_ok e ''/dev/null'' O_RDWR then lowest_free (fds s) else - 1) 0"])
       (simp add: failure_value_def PROT_WRITE_def PROT_READ_def split: os_reply.splits)
qed


lemma main_store_first:
  "\<exists>rest. trace (snd (main pf e argc argv s)) =
      trace (snd (allocate_mem pf e 8 0x00007FF49E872000 s)) @
      EvStore (fst (allocate_mem pf e 8 0x00007FF49E872000 s)) 42 # rest"
  by (auto simp add: main_def Let_def cin_get_def cout_def
      split: prod.splits sum.splits
      dest!: deref_write_Inl deref_write_Inr print_cell_Inl print_cell_Inr)

lemma main_fault:
  assumes "allocate_mem pf e 8 0x00007FF49E872000 s = (number, s1)"
      and "\<not> accessible (mem s1) number 8"
  shows "main pf e argc argv s = (Segfault number, s1\<lparr>trace := trace s1 @ [EvStore number 42]\<rparr>)"
  using assms
  by (auto simp add: main_def Let_def split: sum.splits
      dest!: deref_write_Inl deref_write_Inr simp add: store64_def)

lemma store64_Some_accessible: "store64 m p v = Some m' \<Longrightarrow> accessible m p 8"
  by (simp add: store64_def split: if_splits)

lemma load64_store64_eq: "store64 m p v = Some m' \<Longrightarrow> load64 m' p = Some v' \<Longrightarrow> v' = v"
  using load64_store64 by fastforce

lemma main_exited:
  assumes "allocate_mem pf e 8 0x00007FF49E872000 s = (number, s1)"
      and "fst (main pf e argc argv s) = Exited c"
  shows "c = 0 \<and>
     (\<exists>m v. store64 (mem s1) number 42 = Some m \<and>
        load64 (edit e (gets s1) m) number = Some v \<and>
        trace (snd (main pf e argc argv s)) = trace s1 @
        [EvStore number 42,
         EvPrint (OutPtr number), EvPrint (OutStr '' - ''), EvLoad number,
         EvPrint (OutU64 42), EvPrint (OutChar (CHR 0x0A)),
         EvPrint (OutStr ''Press ENTER to update value\<newline>''), EvGet,
         EvPrint (OutPtr number), EvPrint (OutStr '' - ''), EvLoad number,
         EvPrint (OutU64 v), EvPrint (OutChar (CHR 0x0A)),
         EvPrint (OutStr ''Press ENTER to exit\<newline>''), EvGet])"
  using assms
  by (auto simp add: main_def Let_def cin_get_def cout_def
      split: prod.splits sum.splits
      dest!: deref_write_Inl deref_write_Inr print_cell_Inl print_cell_Inr
      dest: load64_store64_eq)

lemma main_granted:
  assumes "allocate_mem pf e 8 0x00007FF49E872000 s = (number, s1)"
      and "store64 (mem s1) number 42 = Some m"
      and "load64 (edit e (gets s1) m) number = Some v"
  shows "fst (main pf e argc argv s) = Exited 0"
  using assms load64_store64 [OF assms(2)]
  by (simp add: main_def Let_def cin_get_def cout_def deref_write_def print_cell_def
      deref_read_def)




lemma main_keeps_requests:
  "vm_requests (trace (snd (main pf e argc argv s))) =
   vm_requests (trace (snd (allocate_mem pf e 8 0x00007FF49E872000 s)))"
  by (auto simp add: main_def Let_def cin_get_def cout_def vm_requests_append
      split: prod.splits sum.splits
      dest!: deref_write_Inl deref_write_Inr print_cell_Inl print_cell_Inr)

lemma main_keeps_fds:
  "fds (snd (main pf e argc argv s)) = fds (snd (allocate_mem pf e 8 0x00007FF49E872000 s))"
  by (auto simp add: main_def Let_def cin_get_def cout_def
      split: prod.splits sum.splits
      dest!: deref_write_Inl deref_write_Inr print_cell_Inl print_cell_Inr)

lemma lowest_free_fresh: "lowest_free tab \<notin> fst ` set tab"
proof (cases "find (\<lambda>n. n \<notin> set (map fst tab)) (map int [0..<Suc (length tab)])")
  case (Some n)
  then have "n \<notin> set (map fst tab)"
    by (auto simp add: find_Some_iff)
  with Some show ?thesis
    by (simp add: lowest_free_def)
next
  case None
  then have "int ` {0..<Suc (length tab)} \<subseteq> fst ` set tab"
    by (auto simp add: find_None_iff simp del: upt_Suc)
  then have "card (int ` {0..<Suc (length tab)}) \<le> card (fst ` set tab)"
    by (intro card_mono) simp_all
  moreover have "card (int ` {0..<Suc (length tab)}) = Suc (length tab)"
    by (simp add: card_image del: atLeastLessThanSuc)
  moreover have "card (fst ` set tab) \<le> length tab"
    by (metis card_image_le card_length le_trans List.finite_set)
  ultimately show ?thesis by simp
qed

lemma one_page:
  assumes "0 < unat n" and "unat a mod P + unat n \<le> P"
  shows "within_one_page P a n"
proof -
  have P: "0 < P" using assms by (cases P) simp_all
  define r where "r = unat a mod P + unat n - 1"
  have r: "r < P" using assms by (simp add: r_def)
  have "unat a + unat n - 1 = r + unat a div P * P"
    using assms(1) by (simp add: r_def algebra_simps)
  then have "(unat a + unat n - 1) div P = unat a div P"
    using r P by simp
  then show ?thesis
    by (simp add: within_one_page_def first_page_def last_page_def)
qed

lemma program_call_one_page: "within_one_page 4096 0x00007FF49E872000 8"
  by (simp add: within_one_page_def first_page_def last_page_def)

lemma start_simps:
  "mem (start inp) = Map.empty" "trace (start inp) = []" "gets (start inp) = 0"
  "fds (start inp) = [(0, ''stdin'', 0), (1, ''stdout'', 1), (2, ''stderr'', 1)]"
  by (simp_all add: start_def)

lemma store64_commit: "\<exists>m'. store64 (commit m h 8) h v = Some m'"
  by (simp add: store64_def accessible_commit)

lemma run_grant_at:
  "allocate_mem Win32 (grant_at h) 8 a (start inp) =
     (h, (start inp)\<lparr>mem := commit Map.empty h 8,
        trace := [EvRequest (ReqVirtualAlloc a 8 MEM_COMMIT PAGE_READWRITE) h]\<rparr>)"
  by (simp add: allocate_mem_win32_eq grant_at_def start_simps)

lemma exit_grant_at:
  "fst (main Win32 (grant_at h) argc argv (start inp)) = Exited 0"
proof -
  obtain m where st: "store64 (commit Map.empty h 8) h 42 = Some m"
    using store64_commit by blast
  have "load64 (edit (grant_at h) 0 m) h = Some 42"
    using load64_store64 [OF st] by (simp add: grant_at_def)
  then show ?thesis
    using st by (intro main_granted [OF run_grant_at]) (simp_all add: start_simps)
qed

lemma run_deny:
  "allocate_mem Win32 deny 8 a (start inp) =
     (NULL, (start inp)\<lparr>trace := [EvRequest (ReqVirtualAlloc a 8 MEM_COMMIT PAGE_READWRITE) NULL]\<rparr>)"
  by (simp add: allocate_mem_win32_eq deny_def start_simps)

lemma denied_everywhere: "vm deny rq = Denied"
  by (simp add: deny_def)

lemma allocate_mem_denied:
  assumes "\<forall>rq. vm e rq = Denied"
  shows "fst (allocate_mem pf e n a s) = failure_value pf"
    and "mem (snd (allocate_mem pf e n a s)) = mem s"
  using allocate_mem_spec [of pf e n a s] assms by auto

lemma trace_grant_at:
  "trace (snd (main Win32 (grant_at h) argc argv (start inp))) =
     [EvRequest (ReqVirtualAlloc 0x00007FF49E872000 8 MEM_COMMIT PAGE_READWRITE) h,
      EvStore h 42,
      EvPrint (OutPtr h), EvPrint (OutStr '' - ''), EvLoad h,
      EvPrint (OutU64 42), EvPrint (OutChar (CHR 0x0A)),
      EvPrint (OutStr ''Press ENTER to update value\<newline>''), EvGet,
      EvPrint (OutPtr h), EvPrint (OutStr '' - ''), EvLoad h,
      EvPrint (OutU64 42), EvPrint (OutChar (CHR 0x0A)),
      EvPrint (OutStr ''Press ENTER to exit\<newline>''), EvGet]"
proof -
  have al: "allocate_mem Win32 (grant_at h) 8 0x00007FF49E872000 (start inp) =
     (h, (start inp)\<lparr>mem := commit Map.empty h 8,
        trace := [EvRequest (ReqVirtualAlloc 0x00007FF49E872000 8 MEM_COMMIT PAGE_READWRITE) h]\<rparr>)"
    by (rule run_grant_at)
  have ex: "fst (main Win32 (grant_at h) argc argv (start inp)) = Exited 0"
    by (rule exit_grant_at)
  from main_exited [OF al ex]
  obtain m v where st: "store64 (commit Map.empty h 8) h 42 = Some m"
    and ld: "load64 (edit (grant_at h) 0 m) h = Some v"
    and tr: "trace (snd (main Win32 (grant_at h) argc argv (start inp))) =
        [EvRequest (ReqVirtualAlloc 0x00007FF49E872000 8 MEM_COMMIT PAGE_READWRITE) h] @
        [EvStore h 42,
         EvPrint (OutPtr h), EvPrint (OutStr '' - ''), EvLoad h,
         EvPrint (OutU64 42), EvPrint (OutChar (CHR 0x0A)),
         EvPrint (OutStr ''Press ENTER to update value\<newline>''), EvGet,
         EvPrint (OutPtr h), EvPrint (OutStr '' - ''), EvLoad h,
         EvPrint (OutU64 v), EvPrint (OutChar (CHR 0x0A)),
         EvPrint (OutStr ''Press ENTER to exit\<newline>''), EvGet]"
    by (auto simp add: start_simps)
  from ld have "load64 m h = Some v"
    by (simp add: grant_at_def)
  with st have "v = 42"
    by (rule load64_store64_eq)
  with tr show ?thesis by simp
qed

subsection \<open>The value written is the value read\<close>

text \<open>
  C1. The request the program issues asks for eight bytes at \<open>0x00007FF49E872000\<close>.
  Whenever the operating system grants that request, at whatever address \<open>h\<close> it
  chooses, and nobody edits the memory during the first pause, the run ends normally and
  the value printed is 42 both before and after the pause; the console shows the handle
  \<open>h\<close>, the separator and 42 twice, with the two prompts in between and after.
\<close>

theorem main_reads_back_42:
  assumes "rq \<in> set (vm_requests (trace (snd (main pf e argc argv (start inp)))))"
      and "vm e rq = Granted h"
      and "edit e 0 = (\<lambda>m. m)"
  shows "req_addr rq = 0x00007FF49E872000 \<and> req_size rq = 8 \<and>
         fst (main pf e argc argv (start inp)) = Exited 0 \<and>
         printed (trace (snd (main pf e argc argv (start inp)))) =
           [OutPtr h, OutStr '' - '', OutU64 42, OutChar (CHR 0x0A),
            OutStr ''Press ENTER to update value\<newline>'',
            OutPtr h, OutStr '' - '', OutU64 42, OutChar (CHR 0x0A),
            OutStr ''Press ENTER to exit\<newline>'']"
proof -
  define number where "number = fst (allocate_mem pf e 8 0x00007FF49E872000 (start inp))"
  define s1 where "s1 = snd (allocate_mem pf e 8 0x00007FF49E872000 (start inp))"
  have al: "allocate_mem pf e 8 0x00007FF49E872000 (start inp) = (number, s1)"
    by (simp add: number_def s1_def)
  from allocate_mem_spec [of pf e 8 "0x00007FF49E872000" "start inp"]
  obtain pre rq0 where tr: "trace s1 = pre @ [EvRequest rq0 number]"
    and pre: "vm_requests pre = []" "printed pre = []"
    and rq0: "req_addr rq0 = 0x00007FF49E872000" "req_size rq0 = 8"
    and g: "gets s1 = 0"
    and reply: "case vm e rq0 of
         Granted h \<Rightarrow> number = h \<and> mem s1 = commit (mem (start inp)) h 8
       | Denied \<Rightarrow> number = failure_value pf \<and> mem s1 = mem (start inp)"
    unfolding number_def s1_def start_simps by auto
  from assms(1) have "rq \<in> set (vm_requests (trace s1))"
    by (simp add: main_keeps_requests al)
  then have "rq = rq0"
    by (simp add: tr vm_requests_append pre)
  with reply assms(2) have num: "number = h" and m1: "mem s1 = commit Map.empty h 8"
    by (simp_all add: start_simps)
  from store64_commit obtain m where st: "store64 (mem s1) number 42 = Some m"
    unfolding m1 num by blast
  have ld: "load64 (edit e (gets s1) m) number = Some 42"
    using load64_store64 [OF st] by (simp add: g assms(3))
  have ex: "fst (main pf e argc argv (start inp)) = Exited 0"
    by (rule main_granted [OF al st ld])
  from main_exited [OF al ex] st ld
  have "printed (trace (snd (main pf e argc argv (start inp)))) =
           [OutPtr number, OutStr '' - '', OutU64 42, OutChar (CHR 0x0A),
            OutStr ''Press ENTER to update value\<newline>'',
            OutPtr number, OutStr '' - '', OutU64 42, OutChar (CHR 0x0A),
            OutStr ''Press ENTER to exit\<newline>'']"
    by (auto simp add: tr printed_append pre)
  with ex rq0 \<open>rq = rq0\<close> num show ?thesis by simp
qed

theorem main_reads_back_42_witness:
  "ReqVirtualAlloc 0x00007FF49E872000 8 MEM_COMMIT PAGE_READWRITE \<in>
     set (vm_requests (trace (snd (main Win32 (grant_at 0x00007FF49E872000) 1
       [''target_program''] (start ''\<newline>\<newline>''))))) \<and>
   vm (grant_at 0x00007FF49E872000)
     (ReqVirtualAlloc 0x00007FF49E872000 8 MEM_COMMIT PAGE_READWRITE) =
     Granted 0x00007FF49E872000 \<and>
   edit (grant_at 0x00007FF49E872000) 0 = (\<lambda>m. m) \<and>
   fst (main Win32 (grant_at 0x00007FF49E872000) 1 [''target_program'']
       (start ''\<newline>\<newline>'')) = Exited 0 \<and>
   printed (trace (snd (main Win32 (grant_at 0x00007FF49E872000) 1 [''target_program'']
       (start ''\<newline>\<newline>'')))) =
     [OutPtr 0x00007FF49E872000, OutStr '' - '', OutU64 42, OutChar (CHR 0x0A),
      OutStr ''Press ENTER to update value\<newline>'',
      OutPtr 0x00007FF49E872000, OutStr '' - '', OutU64 42, OutChar (CHR 0x0A),
      OutStr ''Press ENTER to exit\<newline>'']"
proof -
  have rq: "ReqVirtualAlloc 0x00007FF49E872000 8 MEM_COMMIT PAGE_READWRITE \<in>
     set (vm_requests (trace (snd (main Win32 (grant_at 0x00007FF49E872000) 1
       [''target_program''] (start ''\<newline>\<newline>'')))))"
    by (simp add: main_keeps_requests run_grant_at)
  have g: "vm (grant_at 0x00007FF49E872000)
      (ReqVirtualAlloc 0x00007FF49E872000 8 MEM_COMMIT PAGE_READWRITE) = Granted 0x00007FF49E872000"
    and ed: "edit (grant_at 0x00007FF49E872000) 0 = (\<lambda>m. m)"
    by (simp_all add: grant_at_def)
  from main_reads_back_42 [OF rq g ed] rq g ed
  show ?thesis by blast
qed

subsection \<open>The result of the allocation is used unchecked\<close>

text \<open>
  C2. On either platform and whatever the operating system answers, the first thing
  \<open>main\<close> does after \<open>allocate_mem\<close> returns is the store of 42 through the
  returned pointer: the trace of the run is the trace of the call, then that store, then
  the rest. No test of the pointer stands in between. When the operating system declines
  every request the pointer is the failure value of the platform, so the store goes
  through the failure value.
\<close>

theorem main_dereferences_unchecked:
  "(\<exists>rest. trace (snd (main pf e argc argv s)) =
      trace (snd (allocate_mem pf e 8 0x00007FF49E872000 s)) @
      EvStore (fst (allocate_mem pf e 8 0x00007FF49E872000 s)) 42 # rest) \<and>
   ((\<forall>rq. vm e rq = Denied) \<longrightarrow>
      fst (allocate_mem pf e 8 0x00007FF49E872000 s) = failure_value pf \<and>
      (\<exists>rest. trace (snd (main pf e argc argv s)) =
         trace (snd (allocate_mem pf e 8 0x00007FF49E872000 s)) @
         EvStore (failure_value pf) 42 # rest))"
proof -
  have first: "\<exists>rest. trace (snd (main pf e argc argv s)) =
      trace (snd (allocate_mem pf e 8 0x00007FF49E872000 s)) @
      EvStore (fst (allocate_mem pf e 8 0x00007FF49E872000 s)) 42 # rest"
    by (rule main_store_first)
  have "fst (allocate_mem pf e 8 0x00007FF49E872000 s) = failure_value pf"
    if "\<forall>rq. vm e rq = Denied"
    using that by (rule allocate_mem_denied(1))
  with first show ?thesis by auto
qed

theorem main_dereferences_unchecked_witness:
  "(\<forall>rq. vm deny rq = Denied) \<and>
   fst (allocate_mem Win32 deny 8 0x00007FF49E872000 (start '''')) = failure_value Win32 \<and>
   (\<exists>rest. trace (snd (main Win32 deny 1 [''target_program''] (start ''''))) =
      trace (snd (allocate_mem Win32 deny 8 0x00007FF49E872000 (start ''''))) @
      EvStore (failure_value Win32) 42 # rest)"
proof -
  have d: "\<forall>rq. vm deny rq = Denied"
    by (simp add: denied_everywhere)
  from main_dereferences_unchecked [of Win32 deny 1 "[''target_program'']" "start ''''"] d
  show ?thesis by blast
qed

subsection \<open>A declined request\<close>

text \<open>
  C3 says that a declined request is reported as \<open>AllocationFailed\<close> and that the
  program ends without touching the memory. The source has no such report and no such
  check. On Windows, with every request declined and the console silent, \<open>main\<close>
  gets the null pointer, attempts the store through it and faults there; nothing has been
  printed.
\<close>

theorem main_denied_counterexample:
  "vm deny (ReqVirtualAlloc 0x00007FF49E872000 8 MEM_COMMIT PAGE_READWRITE) = Denied \<and>
   mem (start '''') NULL = None \<and>
   main Win32 deny 1 [''target_program''] (start '''') =
     (Segfault NULL,
      (start '''')\<lparr>trace :=
         [EvRequest (ReqVirtualAlloc 0x00007FF49E872000 8 MEM_COMMIT PAGE_READWRITE) NULL,
          EvStore NULL 42]\<rparr>)"
proof -
  have "main Win32 deny 1 [''target_program''] (start '''') =
     (Segfault NULL,
      (start '''')\<lparr>trace := [EvRequest (ReqVirtualAlloc 0x00007FF49E872000 8 MEM_COMMIT PAGE_READWRITE) NULL]\<rparr>
        \<lparr>trace := trace ((start '''')\<lparr>trace := [EvRequest (ReqVirtualAlloc 0x00007FF49E872000 8 MEM_COMMIT PAGE_READWRITE) NULL]\<rparr>) @ [EvStore NULL 42]\<rparr>)"
    by (rule main_fault [OF run_deny]) (simp add: start_simps accessible_empty)
  then show ?thesis
    by (simp add: denied_everywhere start_simps)
qed

text \<open>
  C3, as the code has it. When the operating system declines every request,
  \<open>allocate_mem\<close> returns the failure value of the platform and \<open>main\<close> stores
  42 through it at once. When the eight bytes at that value are not accessible, the run
  ends in a fault at that address, the store is the only step after the allocation, and
  nothing is printed.
\<close>

theorem main_denied_faults:
  assumes "\<forall>rq. vm e rq = Denied"
      and "\<not> accessible (mem s) (failure_value pf) 8"
  shows "fst (allocate_mem pf e 8 0x00007FF49E872000 s) = failure_value pf \<and>
         fst (main pf e argc argv s) = Segfault (failure_value pf) \<and>
         trace (snd (main pf e argc argv s)) =
           trace (snd (allocate_mem pf e 8 0x00007FF49E872000 s)) @
           [EvStore (failure_value pf) 42] \<and>
         printed (trace (snd (main pf e argc argv s))) = printed (trace s)"
proof -
  define s1 where "s1 = snd (allocate_mem pf e 8 0x00007FF49E872000 s)"
  have al: "allocate_mem pf e 8 0x00007FF49E872000 s = (failure_value pf, s1)"
    using allocate_mem_denied(1) [OF assms(1), of pf 8 "0x00007FF49E872000" s]
    by (simp add: s1_def prod_eq_iff)
  have "mem s1 = mem s"
    unfolding s1_def by (rule allocate_mem_denied(2) [OF assms(1)])
  with assms(2) have na: "\<not> accessible (mem s1) (failure_value pf) 8"
    by simp
  from allocate_mem_spec [of pf e 8 "0x00007FF49E872000" s]
  have pr: "printed (trace s1) = printed (trace s)"
    unfolding s1_def by (auto simp add: printed_append)
  have "main pf e argc argv s =
      (Segfault (failure_value pf), s1\<lparr>trace := trace s1 @ [EvStore (failure_value pf) 42]\<rparr>)"
    by (rule main_fault [OF al na])
  then show ?thesis
    using pr by (simp add: al printed_append)
qed

theorem main_denied_faults_witness:
  "(\<forall>rq. vm deny rq = Denied) \<and>
   \<not> accessible (mem (start '''')) (failure_value Posix) 8 \<and>
   fst (allocate_mem Posix deny 8 0x00007FF49E872000 (start '''')) = failure_value Posix \<and>
   fst (main Posix deny 1 [''target_program''] (start '''')) = Segfault (failure_value Posix) \<and>
   printed (trace (snd (main Posix deny 1 [''target_program''] (start '''')))) = []"
proof -
  have d: "\<forall>rq. vm deny rq = Denied"
    by (simp add: denied_everywhere)
  have na: "\<not> accessible (mem (start '''')) (failure_value Posix) 8"
    by (simp add: start_simps accessible_empty)
  have e: "printed (trace (start [])) = []"
    by (simp add: start_simps)
  note r = main_denied_faults [OF d na, of 1 "[''target_program'']", unfolded e]
  from r d na show ?thesis by blast
qed

subsection \<open>The failure value of each variant\<close>

text \<open>
  C4 says that both variants signal failure with a null pointer. The POSIX variant
  returns the result of \<open>mmap\<close> as it is, and \<open>mmap\<close> signals failure with
  \<open>MAP_FAILED\<close>, all bits set, which is not the null pointer the Windows variant
  returns.
\<close>

theorem allocate_mem_posix_sentinel_counterexample:
  "vm deny (ReqMmap 0x00007FF49E872000 8 (PROT_WRITE OR PROT_READ) 0 3 0) = Denied \<and>
   vm deny (ReqVirtualAlloc 0x00007FF49E872000 8 MEM_COMMIT PAGE_READWRITE) = Denied \<and>
   fst (allocate_mem Posix deny 8 0x00007FF49E872000 (start '''')) = 0xFFFFFFFFFFFFFFFF \<and>
   fst (allocate_mem Win32 deny 8 0x00007FF49E872000 (start '''')) = 0 \<and>
   fst (allocate_mem Posix deny 8 0x00007FF49E872000 (start '''')) \<noteq> NULL"
  by (simp add: allocate_mem_posix_eq allocate_mem_win32_eq denied_everywhere Let_def
      MAP_FAILED_def NULL_def)

text \<open>
  C4, as the code has it. When the operating system declines the request, the Windows
  variant returns \<open>NULL\<close>, the failure value of \<open>VirtualAlloc\<close>, and the POSIX
  variant returns \<open>MAP_FAILED\<close>, the failure value of \<open>mmap\<close>; the two differ.
\<close>

theorem allocate_mem_failure_values:
  assumes "\<forall>rq. vm e rq = Denied"
  shows "fst (allocate_mem Win32 e n a s) = NULL \<and>
         fst (allocate_mem Posix e n a s) = MAP_FAILED \<and>
         MAP_FAILED \<noteq> NULL"
  using assms
  by (simp add: allocate_mem_posix_eq allocate_mem_win32_eq Let_def MAP_FAILED_def NULL_def)

theorem allocate_mem_failure_values_witness:
  "(\<forall>rq. vm deny rq = Denied) \<and>
   fst (allocate_mem Win32 deny 8 0x00007FF49E872000 (start '''')) = NULL \<and>
   fst (allocate_mem Posix deny 8 0x00007FF49E872000 (start '''')) = MAP_FAILED \<and>
   MAP_FAILED \<noteq> NULL"
proof -
  have d: "\<forall>rq. vm deny rq = Denied"
    by (simp add: denied_everywhere)
  from allocate_mem_failure_values [OF d, of 8 "0x00007FF49E872000" "start ''''"] d
  show ?thesis by blast
qed

subsection \<open>Waiting for the console\<close>

text \<open>
  C5 says that a complete run waits for console input exactly once. The source calls
  \<open>std::cin.get()\<close> at line 14 and again at line 19: a run on Windows whose request is
  granted, with ENTER pressed at each prompt, ends normally after two waits.
\<close>

theorem main_suspends_twice_counterexample:
  "fst (main Win32 (grant_at 0x00007FF49E872000) 1 [''target_program''] (start ''\<newline>\<newline>'')) = Exited 0 \<and>
   suspensions (trace (snd (main Win32 (grant_at 0x00007FF49E872000) 1 [''target_program'']
      (start ''\<newline>\<newline>'')))) = 2"
  by (simp add: exit_grant_at trace_grant_at)

text \<open>
  C5, as the code has it. Every run that ends normally has called \<open>std::cin.get()\<close>
  exactly twice and its exit status is 0. After the call of \<open>allocate_mem\<close>, which does
  not wait, the trace of the run is: the store, the first print of handle and value, the
  first prompt, the first wait (line 14), the second print of handle and value, the second
  prompt, the second wait (line 19). So one wait stands between the two prints and the
  other is the last step of the run.
\<close>

theorem main_suspends_twice:
  assumes "fst (main pf e argc argv s) = Exited c"
  shows "suspensions (trace (snd (main pf e argc argv s))) = suspensions (trace s) + 2 \<and>
         last (trace (snd (main pf e argc argv s))) = EvGet \<and> c = 0 \<and>
         (\<exists>h s1 v. allocate_mem pf e 8 0x00007FF49E872000 s = (h, s1) \<and>
            suspensions (trace s1) = suspensions (trace s) \<and>
            trace (snd (main pf e argc argv s)) = trace s1 @
              [EvStore h 42,
               EvPrint (OutPtr h), EvPrint (OutStr '' - ''), EvLoad h,
               EvPrint (OutU64 42), EvPrint (OutChar (CHR 0x0A)),
               EvPrint (OutStr ''Press ENTER to update value\<newline>''), EvGet,
               EvPrint (OutPtr h), EvPrint (OutStr '' - ''), EvLoad h,
               EvPrint (OutU64 v), EvPrint (OutChar (CHR 0x0A)),
               EvPrint (OutStr ''Press ENTER to exit\<newline>''), EvGet])"
proof -
  define number where "number = fst (allocate_mem pf e 8 0x00007FF49E872000 s)"
  define s1 where "s1 = snd (allocate_mem pf e 8 0x00007FF49E872000 s)"
  have al: "allocate_mem pf e 8 0x00007FF49E872000 s = (number, s1)"
    by (simp add: number_def s1_def)
  from allocate_mem_spec [of pf e 8 "0x00007FF49E872000" s]
  have "suspensions (trace s1) = suspensions (trace s)"
    unfolding s1_def by (auto simp add: suspensions_append)
  with main_exited [OF al assms] al show ?thesis
    by (auto simp add: suspensions_append)
qed

theorem main_suspends_twice_witness:
  "fst (main Win32 (grant_at 0x00007FF49E872000) 1 [''target_program''] (start ''\<newline>\<newline>'')) = Exited 0 \<and>
   suspensions (trace (snd (main Win32 (grant_at 0x00007FF49E872000) 1 [''target_program'']
      (start ''\<newline>\<newline>'')))) = suspensions (trace (start ''\<newline>\<newline>'')) + 2 \<and>
   last (trace (snd (main Win32 (grant_at 0x00007FF49E872000) 1 [''target_program'']
      (start ''\<newline>\<newline>'')))) = EvGet"
proof -
  have ex: "fst (main Win32 (grant_at 0x00007FF49E872000) 1 [''target_program'']
      (start ''\<newline>\<newline>'')) = Exited 0"
    by (rule exit_grant_at)
  from main_suspends_twice [OF ex] ex show ?thesis by blast
qed

subsection \<open>What a successful run prints\<close>




subsection \<open>The request passed to the operating system\<close>

text \<open>
  C7 says that the size passed covers one page containing the target address. The size
  passed is \<open>sizeof(T)\<close>, and the address is passed as the caller gave it: with pages
  of 4096 bytes, the eight bytes requested at \<open>0x00007FF49E872FFC\<close> begin in page
  \<open>0x7FF49E872\<close> and end in page \<open>0x7FF49E873\<close>.
\<close>

theorem allocate_mem_two_pages_counterexample:
  "vm_requests (trace (snd (allocate_mem Win32 (grant_at 0x00007FF49E872FFC) 8
      0x00007FF49E872FFC (start '''')))) =
     [ReqVirtualAlloc 0x00007FF49E872FFC 8 MEM_COMMIT PAGE_READWRITE] \<and>
   first_page 4096 0x00007FF49E872FFC = 0x7FF49E872 \<and>
   last_page 4096 0x00007FF49E872FFC 8 = 0x7FF49E873 \<and>
   \<not> within_one_page 4096 0x00007FF49E872FFC 8"
  by (simp add: run_grant_at within_one_page_def first_page_def last_page_def)

text \<open>
  C7, as the code has it. Each call of \<open>allocate_mem\<close> issues one request, for
  \<open>sizeof(T)\<close> bytes of readable and writable memory at the address the caller gave.
  The bytes requested lie in one page whenever the offset of the address in its page
  plus \<open>sizeof(T)\<close> does not exceed the page size \<open>P\<close>; this is so for the call
  \<open>main\<close> makes, eight bytes at \<open>0x00007FF49E872000\<close>, with pages of 4096 bytes.
\<close>

theorem allocate_mem_request:
  "(\<exists>rq. vm_requests (trace (snd (allocate_mem pf e n a s))) = vm_requests (trace s) @ [rq] \<and>
      req_addr rq = a \<and> req_size rq = n \<and> req_readwrite rq) \<and>
   (0 < unat n \<and> unat a mod P + unat n \<le> P \<longrightarrow> within_one_page P a n) \<and>
   within_one_page 4096 0x00007FF49E872000 8"
proof -
  from allocate_mem_spec [of pf e n a s]
  have "\<exists>rq. vm_requests (trace (snd (allocate_mem pf e n a s))) = vm_requests (trace s) @ [rq] \<and>
      req_addr rq = a \<and> req_size rq = n \<and> req_readwrite rq"
    by (auto simp add: vm_requests_append)
  then show ?thesis
    using one_page [of n a P] program_call_one_page by blast
qed

theorem allocate_mem_request_witness:
  "(0 < unat (8 :: 64 word) \<and> unat (0x00007FF49E872000 :: addr) mod 4096 + unat (8 :: 64 word) \<le> 4096) \<and>
   within_one_page 4096 0x00007FF49E872000 8 \<and>
   (\<exists>rq. vm_requests (trace (snd (allocate_mem Win32 (grant_at 0x00007FF49E872000) 8
          0x00007FF49E872000 (start '''')))) = vm_requests (trace (start '''')) @ [rq] \<and>
      req_addr rq = 0x00007FF49E872000 \<and> req_size rq = 8 \<and> req_readwrite rq)"
proof -
  have h: "0 < unat (8 :: 64 word) \<and> unat (0x00007FF49E872000 :: addr) mod 4096 + unat (8 :: 64 word) \<le> 4096"
    by simp
  from allocate_mem_request [of Win32 "grant_at 0x00007FF49E872000" 8 "0x00007FF49E872000"
      "start ''''" 4096] h
  show ?thesis by blast
qed

subsection \<open>The descriptor of the null device\<close>

text \<open>
  C8. In the POSIX variant, when \<open>/dev/null\<close> can be opened, a call of
  \<open>allocate_mem\<close> opens it with \<open>O_RDWR\<close>, obtains a descriptor that was not in
  use, passes that descriptor as the \<open>fd\<close> argument of \<open>mmap\<close>, and returns with
  the descriptor added to the table and nothing removed from it. \<open>main\<close> does not
  close it either: at the end of the run, however it ends, the table is the initial one
  with this descriptor added.
\<close>

theorem allocate_mem_posix_leaves_descriptor:
  assumes "open_ok e ''/dev/null'' O_RDWR"
  shows "\<exists>fd. fd \<notin> fst ` set (fds s) \<and>
     fds (snd (allocate_mem_posix e n a s)) = fds s @ [(fd, ''/dev/null'', O_RDWR)] \<and>
     trace (snd (allocate_mem_posix e n a s)) = trace s @
       [EvOpen ''/dev/null'' O_RDWR fd,
        EvRequest (ReqMmap a n (PROT_WRITE OR PROT_READ) 0 fd 0) (fst (allocate_mem_posix e n a s))] \<and>
     fds (snd (main Posix e argc argv s)) = fds s @ [(fd, ''/dev/null'', O_RDWR)]"
proof -
  have eq: "allocate_mem_posix e n a s = allocate_mem Posix e n a s" for n a
    by (simp add: allocate_mem_def)
  have "fds (snd (allocate_mem Posix e n a s)) =
          fds s @ [(lowest_free (fds s), ''/dev/null'', O_RDWR)] \<and>
        trace (snd (allocate_mem Posix e n a s)) = trace s @
          [EvOpen ''/dev/null'' O_RDWR (lowest_free (fds s)),
           EvRequest (ReqMmap a n (PROT_WRITE OR PROT_READ) 0 (lowest_free (fds s)) 0)
             (fst (allocate_mem Posix e n a s))]" for n a
    using assms by (simp add: allocate_mem_posix_eq Let_def split: os_reply.splits)
  then show ?thesis
    using lowest_free_fresh [of "fds s"] by (auto simp add: eq main_keeps_fds intro!: exI [of _ "lowest_free (fds s)"])
qed

theorem allocate_mem_posix_leaves_descriptor_witness:
  "open_ok (grant_at 0x00007FF49E872000) ''/dev/null'' O_RDWR \<and>
   (\<exists>fd. fd \<notin> fst ` set (fds (start '''')) \<and>
     fds (snd (allocate_mem_posix (grant_at 0x00007FF49E872000) 8 0x00007FF49E872000 (start ''''))) =
       fds (start '''') @ [(fd, ''/dev/null'', O_RDWR)] \<and>
     trace (snd (allocate_mem_posix (grant_at 0x00007FF49E872000) 8 0x00007FF49E872000 (start ''''))) =
       trace (start '''') @
       [EvOpen ''/dev/null'' O_RDWR fd,
        EvRequest (ReqMmap 0x00007FF49E872000 8 (PROT_WRITE OR PROT_READ) 0 fd 0)
          (fst (allocate_mem_posix (grant_at 0x00007FF49E872000) 8 0x00007FF49E872000 (start '''')))] \<and>
     fds (snd (main Posix (grant_at 0x00007FF49E872000) 1 [''target_program''] (start ''''))) =
       fds (start '''') @ [(fd, ''/dev/null'', O_RDWR)])"
proof -
  have ok: "open_ok (grant_at 0x00007FF49E872000) ''/dev/null'' O_RDWR"
    by (simp add: grant_at_def)
  from allocate_mem_posix_leaves_descriptor [OF ok, of "start ''''" 8 "0x00007FF49E872000" 1
      "[''target_program'']"] ok
  show ?thesis by blast
qed

subsection \<open>Command-line arguments\<close>

text \<open>
  C9. \<open>main\<close> receives \<open>argc\<close> and \<open>argv\<close> and never reads them: two invocations
  that differ only in their arguments, against the same platform, the same answers of
  the operating system, the same console input and the same initial process, end with
  the same outcome in the same final state, trace and output included.
\<close>

theorem main_ignores_arguments:
  "main pf e argc argv s = main pf e argc' argv' s"
  by (simp add: main_def)

subsection \<open>The flags of the mapping request\<close>

text \<open>
  C10. In the POSIX variant each call of \<open>allocate_mem\<close> issues one mapping request,
  with the caller's address and with 0 as its \<open>flags\<close> argument: whatever bit a flag
  macro stands for (the fixed-address flag, the shared or the private mapping type), it
  is not set. The pointer returned is the address at which the operating system granted
  the request, whether or not it is the address asked for, or \<open>MAP_FAILED\<close>.
\<close>

theorem allocate_mem_posix_flags_zero:
  "\<exists>rq. vm_requests (trace (snd (allocate_mem_posix e n a s))) = vm_requests (trace s) @ [rq] \<and>
      req_addr rq = a \<and> req_flags rq = Some 0 \<and>
      (\<forall>mask. map_option (\<lambda>flags. flags AND mask) (req_flags rq) = Some 0) \<and>
      fst (allocate_mem_posix e n a s) = (case vm e rq of Granted h \<Rightarrow> h | Denied \<Rightarrow> MAP_FAILED)"
  by (simp add: allocate_mem_posix_def sys_open_def sys_mmap_def Let_def vm_requests_append
      split: os_reply.splits)

end
